theory Spec2Isabelle
  imports Main "HOL-Library.Sublist" "HOL-Library.AList"
begin

section \<open>JavaScript values\<close>

text \<open>
  The webhook body is whatever \<^verbatim>\<open>express.json()\<close> parsed, so the service functions work on
  untyped JSON values.  \<open>JUndefined\<close> is what reading a missing property yields.  Numbers are
  the integral ones (epoch milliseconds, counts); fractional numbers are outside the model.
  An object is its list of own properties; \<open>map_of\<close> reads a property.

  A \<open>string\<close> is a list of characters, one \<open>char\<close> per code unit of the source string; the
  emoji of the lookup table are constants written as their UTF-8 bytes and are never searched
  or measured.
\<close>

datatype jsval =
    JUndefined
  | JNull
  | JBool bool
  | JNum int
  | JStr string
  | JArr "jsval list"
  | JObj "(string \<times> jsval) list"

text \<open>
  What a function can throw: the two built-in errors the code can run into, and
  \<^verbatim>\<open>new Error(message)\<close>.  \<open>Unmodelled\<close> marks the one coercion the model leaves open (see
  \<open>lengthPositive\<close>).
\<close>

datatype error = TypeError | RangeError | Failure string | Unmodelled

definition bind :: "error + 'a \<Rightarrow> ('a \<Rightarrow> error + 'b) \<Rightarrow> error + 'b" where
  "bind m f = (case m of Inl e \<Rightarrow> Inl e | Inr v \<Rightarrow> f v)"

text \<open>JavaScript truthiness (\<^verbatim>\<open>if (x)\<close>, \<^verbatim>\<open>x || y\<close>, \<^verbatim>\<open>!x\<close>).\<close>

fun truthy :: "jsval \<Rightarrow> bool" where
  "truthy JUndefined = False"
| "truthy JNull = False"
| "truthy (JBool b) = b"
| "truthy (JNum n) = (n \<noteq> 0)"
| "truthy (JStr s) = (s \<noteq> [])"
| "truthy (JArr xs) = True"
| "truthy (JObj kvs) = True"

text \<open>
  Property access \<^verbatim>\<open>x.k\<close> for the fixed property names the code reads: a TypeError on
  \<^verbatim>\<open>undefined\<close> and \<^verbatim>\<open>null\<close>, the own property of an object, \<^verbatim>\<open>length\<close> of an array or a
  string, \<^verbatim>\<open>undefined\<close> otherwise.
\<close>

fun getProp :: "jsval \<Rightarrow> string \<Rightarrow> error + jsval" where
  "getProp JUndefined k = Inl TypeError"
| "getProp JNull k = Inl TypeError"
| "getProp (JObj kvs) k = Inr (case map_of kvs k of None \<Rightarrow> JUndefined | Some v \<Rightarrow> v)"
| "getProp (JArr xs) k = Inr (if k = ''length'' then JNum (int (length xs)) else JUndefined)"
| "getProp (JStr s) k = Inr (if k = ''length'' then JNum (int (length s)) else JUndefined)"
| "getProp (JBool b) k = Inr JUndefined"
| "getProp (JNum n) k = Inr JUndefined"


subsection \<open>Strings\<close>



text \<open>\<^verbatim>\<open>s.includes(k)\<close>: \<open>k\<close> occurs in \<open>s\<close> as a contiguous substring.\<close>

fun includesStr :: "string \<Rightarrow> string \<Rightarrow> bool" where
  "includesStr [] k = (k = [])"
| "includesStr (c # cs) k = (prefix k (c # cs) \<or> includesStr cs k)"

text \<open>\<^verbatim>\<open>xs.join(sep)\<close> on a list of strings.\<close>

fun join :: "string \<Rightarrow> string list \<Rightarrow> string" where
  "join sep [] = []"
| "join sep [x] = x"
| "join sep (x # y # ys) = x @ sep @ join sep (y # ys)"

section \<open>Event-type extraction\<close>








section \<open>Reading a conditions array\<close>

text \<open>
  The entries of \<^verbatim>\<open>alarm.conditions\<close> and \<^verbatim>\<open>alarm.triggers\<close> as the data model types them.  A
  condition is an object whose \<^verbatim>\<open>condition\<close> is absent, \<^verbatim>\<open>null\<close> or an object, whose \<^verbatim>\<open>source\<close>
  and \<^verbatim>\<open>type\<close> in turn are absent, \<^verbatim>\<open>null\<close> or strings.  A trigger is an object whose \<^verbatim>\<open>device\<close>
  and \<^verbatim>\<open>key\<close> are absent, \<^verbatim>\<open>null\<close> or strings.
\<close>

definition absentOr :: "(jsval \<Rightarrow> bool) \<Rightarrow> jsval option \<Rightarrow> bool" where
  "absentOr P v = (case v of None \<Rightarrow> True | Some JNull \<Rightarrow> True | Some x \<Rightarrow> P x)"

fun isStr :: "jsval \<Rightarrow> bool" where
  "isStr (JStr s) = True"
| "isStr _ = False"

fun typedCondition :: "jsval \<Rightarrow> bool" where
  "typedCondition (JObj kvs) =
     absentOr
       (\<lambda>c. case c of
              JObj cc \<Rightarrow> absentOr isStr (map_of cc ''source'') \<and> absentOr isStr (map_of cc ''type'')
            | _ \<Rightarrow> False)
       (map_of kvs ''condition'')"
| "typedCondition _ = False"


text \<open>The non-empty \<^verbatim>\<open>condition.source\<close> string of an entry, if it has one.\<close>

fun conditionSource :: "jsval \<Rightarrow> string option" where
  "conditionSource (JObj kvs) =
     (case map_of kvs ''condition'' of
        Some (JObj cc) \<Rightarrow>
          (case map_of cc ''source'' of
             Some (JStr s) \<Rightarrow> if s = [] then None else Some s
           | _ \<Rightarrow> None)
      | _ \<Rightarrow> None)"
| "conditionSource _ = None"








text \<open>Sample conditions: the specification's example, and two conditions in reverse priority.\<close>

definition motionDetected :: jsval where
  "motionDetected = JObj [(''condition'', JObj [(''source'', JStr ''Motion Detected'')])]"


section \<open>Conversion to text\<close>

text \<open>Decimal digits of a natural number, and \<^verbatim>\<open>String(n)\<close> for an integral number.\<close>

function showNat :: "nat \<Rightarrow> string" where
  "showNat n =
     (if n < 10 then [''0123456789'' ! n]
      else showNat (n div 10) @ [''0123456789'' ! (n mod 10)])"
  by pat_completeness auto
termination
  by (relation "measure id") auto

declare showNat.simps [simp del]

definition showInt :: "int \<Rightarrow> string" where
  "showInt i = (if i < 0 then ''-'' @ showNat (nat (- i)) else showNat (nat i))"

text \<open>
  \<^verbatim>\<open>String(x)\<close>, which is also what a template literal \<^verbatim>\<open>`${x}`\<close> inserts.  An array is its
  elements joined by commas, \<^verbatim>\<open>null\<close> and \<^verbatim>\<open>undefined\<close> elements giving the empty string.  An
  object is "[object Object]" by the inherited \<^verbatim>\<open>toString\<close>; an own property of that name, which
  in parsed JSON is never a function, leaves no way to a primitive and the conversion throws.
\<close>

fun toStr :: "jsval \<Rightarrow> error + string"
  and toStrs :: "jsval list \<Rightarrow> error + string list" where
  "toStr JUndefined = Inr ''undefined''"
| "toStr JNull = Inr ''null''"
| "toStr (JBool b) = Inr (if b then ''true'' else ''false'')"
| "toStr (JNum n) = Inr (showInt n)"
| "toStr (JStr s) = Inr s"
| "toStr (JArr xs) = bind (toStrs xs) (\<lambda>ss. Inr (join '','' ss))"
| "toStr (JObj kvs) =
     (if map_of kvs ''toString'' = None then Inr ''[object Object]'' else Inl TypeError)"
| "toStrs [] = Inr []"
| "toStrs (x # xs) =
     bind (if x = JNull \<or> x = JUndefined then Inr [] else toStr x) (\<lambda>s.
     bind (toStrs xs) (\<lambda>ss. Inr (s # ss)))"


definition textOf :: "jsval \<Rightarrow> string" where
  "textOf v = (case toStr v of Inr s \<Rightarrow> s | Inl e \<Rightarrow> [])"

text \<open>\<^verbatim>\<open>x || "unknown"\<close>.\<close>

definition orUnknown :: "jsval \<Rightarrow> jsval" where
  "orUnknown x = (if truthy x then x else JStr ''unknown'')"

section \<open>Timestamps\<close>







section \<open>The outbound message\<close>













section \<open>Device, person and event-id extraction\<close>








section \<open>The conditions summary\<close>

text \<open>
  The arrow function mapped over \<^verbatim>\<open>alarm.conditions\<close>:
  \<^verbatim>\<open>cond.condition ? `${cond.condition.source || "unknown"} (${cond.condition.type || "unknown"})`
     : "unknown"\<close>.
\<close>

definition conditionFragment :: "jsval \<Rightarrow> error + string" where
  "conditionFragment cond =
     bind (getProp cond ''condition'') (\<lambda>c.
       if truthy c then
         bind (getProp c ''source'') (\<lambda>source.
         bind (toStr (orUnknown source)) (\<lambda>sourceText.
         bind (getProp c ''type'') (\<lambda>ctype.
         bind (toStr (orUnknown ctype)) (\<lambda>typeText.
           Inr (sourceText @ '' ('' @ typeText @ '')'')))))
       else Inr ''unknown'')"

fun mapFragments :: "jsval list \<Rightarrow> error + string list" where
  "mapFragments [] = Inr []"
| "mapFragments (cond # rest) =
     bind (conditionFragment cond) (\<lambda>f.
     bind (mapFragments rest) (\<lambda>fs. Inr (f # fs)))"

text \<open>
  \<^verbatim>\<open>x > 0\<close> for the \<^verbatim>\<open>length\<close> property of an object that is not an array.  A string or an
  array there would be converted to a floating-point number first; that conversion is left
  open (\<open>None\<close>).
\<close>

fun lengthPositive :: "jsval \<Rightarrow> bool option" where
  "lengthPositive (JNum n) = Some (n > 0)"
| "lengthPositive (JBool b) = Some b"
| "lengthPositive JUndefined = Some False"
| "lengthPositive JNull = Some False"
| "lengthPositive (JObj kvs) = Some False"
| "lengthPositive (JStr s) = None"
| "lengthPositive (JArr xs) = None"

text \<open>
  The value of the "Conditions" field, \<open>None\<close> when the field is not added:
  \<^verbatim>\<open>if (alarm.conditions && alarm.conditions.length > 0) { ... .map(...).join(", ") ... }\<close>.
  Only an array has a \<^verbatim>\<open>map\<close> method; on anything else that passes the test the call throws.
\<close>

definition conditionsSummary :: "jsval \<Rightarrow> error + string option" where
  "conditionsSummary conditions =
     (case conditions of
        JArr cs \<Rightarrow>
          if length cs > 0 then bind (mapFragments cs) (\<lambda>fs. Inr (Some (join '', '' fs)))
          else Inr None
      | JStr s \<Rightarrow> if s \<noteq> [] then Inl TypeError else Inr None
      | JObj kvs \<Rightarrow>
          (case lengthPositive (case map_of kvs ''length'' of None \<Rightarrow> JUndefined | Some v \<Rightarrow> v) of
             Some True \<Rightarrow> Inl TypeError
           | Some False \<Rightarrow> Inr None
           | None \<Rightarrow> Inl Unmodelled)
      | _ \<Rightarrow> Inr None)"

section \<open>The transformation to the Discord format\<close>










section \<open>Vocabulary of the statements\<close>

text \<open>A property of a value read without failing: \<^verbatim>\<open>undefined\<close> where there is none.\<close>

definition propOf :: "jsval \<Rightarrow> string \<Rightarrow> jsval" where
  "propOf v k = (case getProp v k of Inr x \<Rightarrow> x | Inl e \<Rightarrow> JUndefined)"







text \<open>
  The fragment of one condition in the specification's words, \<^verbatim>\<open>"<source> (<type>)"\<close> with each
  part defaulting to "unknown", and the fragment as amended: that form for an entry that has
  a \<^verbatim>\<open>condition\<close>, the bare word "unknown" for one that has none.
\<close>

definition specFragment :: "jsval \<Rightarrow> string" where
  "specFragment c =
     textOf (orUnknown (propOf (propOf c ''condition'') ''source'')) @ '' ('' @
     textOf (orUnknown (propOf (propOf c ''condition'') ''type'')) @ '')''"

definition fragmentText :: "jsval \<Rightarrow> string" where
  "fragmentText c = (if truthy (propOf c ''condition'') then specFragment c else ''unknown'')"














section \<open>Sanitizing the webhook body\<close>





section \<open>HTTP calls\<close>

text \<open>
  What the outside world answers to one HTTP call: no answer at all (a network error or a
  timeout, with axios' message), or a status and a body.  \<^verbatim>\<open>axios\<close> resolves for a 2xx status
  and rejects otherwise, with an error that has the message \<open>Inl\<close> carries.
\<close>

datatype 'a response = NetworkError string | Response nat 'a

definition axios :: "'a response \<Rightarrow> string + (nat \<times> 'a)" where
  "axios r =
     (case r of
        NetworkError msg \<Rightarrow> Inl msg
      | Response status body \<Rightarrow>
          if 200 \<le> status \<and> status < 300 then Inr (status, body)
          else Inl (''Request failed with status code '' @ showNat status))"

section \<open>Session cookies\<close>

text \<open>
  \<^verbatim>\<open>s.split(sep)\<close> for a non-empty separator, as \<open>splitStr sep [] s\<close>: \<open>cur\<close> collects the
  piece being read.
\<close>

function splitStr :: "string \<Rightarrow> string \<Rightarrow> string \<Rightarrow> string list" where
  "splitStr sep cur [] = [cur]"
| "splitStr sep cur (c # cs) =
     (if sep \<noteq> [] \<and> prefix sep (c # cs)
      then cur # splitStr sep [] (drop (length sep) (c # cs))
      else splitStr sep (cur @ [c]) cs)"
  by pat_completeness auto
termination
  by (relation "measure (\<lambda>(sep, cur, s). length s)") auto

text \<open>
  \<^verbatim>\<open>cookie.split("TOKEN=")[1].split(";")[0]\<close>.  Without a second piece \<^verbatim>\<open>[1]\<close> is
  \<^verbatim>\<open>undefined\<close> and the call of \<^verbatim>\<open>split\<close> on it throws.
\<close>

definition tokenOfCookie :: "string \<Rightarrow> error + string" where
  "tokenOfCookie cookie =
     (case splitStr ''TOKEN='' [] cookie of
        _ # piece # _ \<Rightarrow>
          (case splitStr '';'' [] piece of
             t # _ \<Rightarrow> Inr t
           | [] \<Rightarrow> Inl TypeError)
      | _ \<Rightarrow> Inl TypeError)"

text \<open>
  The loop over the \<^verbatim>\<open>set-cookie\<close> header: the first cookie that includes "TOKEN=" gives the
  token and ends the loop.  \<open>None\<close>: no cookie has the marker, nothing is assigned.
\<close>

definition tokenOfCookies :: "string list \<Rightarrow> error + string option" where
  "tokenOfCookies cookies =
     (case List.find (\<lambda>cookie. includesStr cookie ''TOKEN='') cookies of
        None \<Rightarrow> Inr None
      | Some cookie \<Rightarrow> bind (tokenOfCookie cookie) (\<lambda>t. Inr (Some t)))"

text \<open>
  download-thumbnail.mjs, lines 62-81: what \<^verbatim>\<open>authenticate\<close> makes of the cookies of the login
  response, \<open>None\<close> for its \<^verbatim>\<open>return null\<close>.  The token is a local variable that starts as
  \<^verbatim>\<open>null\<close>.
\<close>

definition sessionTokenOfLogin :: "string list option \<Rightarrow> error + string option" where
  "sessionTokenOfLogin cookies =
     (case cookies of
        None \<Rightarrow> Inr None
      | Some cs \<Rightarrow>
          bind (tokenOfCookies cs) (\<lambda>found.
            case found of
              None \<Rightarrow> Inr None
            | Some t \<Rightarrow> Inr (if t = [] then None else Some t)))"

text \<open>
  The regular expression \<^verbatim>\<open>/TOKEN\t([^\t\n]+)/\<close> on the content of cookies.txt: the leftmost
  place where "TOKEN", a tab and at least one character other than tab and newline follow
  each other; the group is the longest run of such characters.
\<close>

definition tab :: char where
  "tab = CHR 0x09"



section \<open>The command-line event processor\<close>

text \<open>
  \<^verbatim>\<open>SingleEventProcessor\<close> (src/unnamed/part_000); \<^verbatim>\<open>ensureAuthenticated\<close>, \<^verbatim>\<open>authenticate\<close> and
  \<^verbatim>\<open>loadExistingSession\<close> are the same text in \<^verbatim>\<open>UniFiDiscordUploader\<close>
  (src/discord-thumbnail-uploader.mjs).

  The state is the object's \<^verbatim>\<open>sessionToken\<close> (\<open>None\<close> for \<^verbatim>\<open>null\<close>), the files of the working
  directory, and the HTTP calls made so far.  File operations are taken not to fail.  The
  environment holds the configuration, the clock and the answers of the two servers.
\<close>

datatype request =
    Login
  | WhoAmI string
  | GetEvent string
  | GetThumbnail string
  | Upload string string

record processor =
  sessionToken :: "string option"
  files :: "string \<Rightarrow> string option"
  requests :: "request list"

record cliEnv =
  host :: string
  clock :: int
  loginResponse :: "string list option response"
  whoAmIResponse :: "string \<Rightarrow> unit response"
  eventResponse :: "string \<Rightarrow> jsval response"
  thumbnailResponse :: "string \<Rightarrow> string response"
  uploadResponse :: "string \<Rightarrow> string \<Rightarrow> unit response"

definition request :: "request \<Rightarrow> processor \<Rightarrow> processor" where
  "request r s = s\<lparr>requests := requests s @ [r]\<rparr>"

text \<open>The line written to cookies.txt; the expiry is a day after the clock, in seconds.\<close>

definition cookieLine :: "cliEnv \<Rightarrow> string \<Rightarrow> string" where
  "cookieLine env token =
     host env @ [tab] @ ''TRUE'' @ [tab] @ ''/proxy/protect/'' @ [tab] @ ''TRUE'' @ [tab] @
     showInt (clock env div 1000 + 24 * 60 * 60) @ [tab] @ ''TOKEN'' @ [tab] @ token"

text \<open>
  \<^verbatim>\<open>authenticate\<close> (lines 35-80).  Every throw inside the \<^verbatim>\<open>try\<close>, that of the login call
  included, ends in \<^verbatim>\<open>return false\<close>.  The test \<^verbatim>\<open>!this.sessionToken\<close> reads the field, whatever
  assigned it.
\<close>

definition authenticate :: "cliEnv \<Rightarrow> processor \<Rightarrow> bool \<times> processor" where
  "authenticate env s0 =
     (let s = request Login s0 in
      case axios (loginResponse env) of
        Inl e \<Rightarrow> (False, s)
      | Inr (status, cookies) \<Rightarrow>
          (case (case cookies of None \<Rightarrow> Inr None | Some cs \<Rightarrow> tokenOfCookies cs) of
             Inl e \<Rightarrow> (False, s)
           | Inr found \<Rightarrow>
               (let s1 = (case found of None \<Rightarrow> s | Some t \<Rightarrow> s\<lparr>sessionToken := Some t\<rparr>) in
                case sessionToken s1 of
                  None \<Rightarrow> (False, s1)
                | Some t \<Rightarrow>
                    if t = [] then (False, s1)
                    else (True, s1\<lparr>files := (files s1)(''cookies.txt'' \<mapsto> cookieLine env t)\<rparr>))))"




text \<open>\<^verbatim>\<open>getEventInfo\<close> (lines 121-152): the data of a 200 response, if truthy, else \<^verbatim>\<open>null\<close>.\<close>

definition getEventInfo :: "cliEnv \<Rightarrow> processor \<Rightarrow> string \<Rightarrow> jsval \<times> processor" where
  "getEventInfo env s0 eventId =
     (let s = request (GetEvent eventId) s0 in
      case axios (eventResponse env eventId) of
        Inl e \<Rightarrow> (JNull, s)
      | Inr (status, body) \<Rightarrow>
          if status = 200 \<and> truthy body then (body, s) else (JNull, s))"

text \<open>\<^verbatim>\<open>downloadThumbnail\<close> (lines 154-192): a 200 response is written to the output file.\<close>

definition downloadThumbnail :: "cliEnv \<Rightarrow> processor \<Rightarrow> string \<Rightarrow> string \<Rightarrow> bool \<times> processor" where
  "downloadThumbnail env s0 eventId outputFile =
     (let s = request (GetThumbnail eventId) s0 in
      case axios (thumbnailResponse env eventId) of
        Inl e \<Rightarrow> (False, s)
      | Inr (status, body) \<Rightarrow>
          if status = 200 then (True, s\<lparr>files := (files s)(outputFile \<mapsto> body)\<rparr>)
          else (False, s))"

text \<open>
  \<^verbatim>\<open>formatEventInfo\<close> (lines 233-241), as far as it can throw: \<open>None\<close> for its \<^verbatim>\<open>return null\<close>,
  else the event type and the camera name of the text line.  The time between them is
  written by \<^verbatim>\<open>toLocaleString\<close>, as the machine is set up, and is left out; the product \<^verbatim>\<open>event.start * 1000\<close>
  converts \<^verbatim>\<open>start\<close> to a number, which throws exactly where the conversion to text does.
\<close>

definition formatEventInfo :: "jsval \<Rightarrow> error + (string \<times> string) option" where
  "formatEventInfo event =
     (if \<not> truthy event then Inr None
      else
        bind (getProp event ''start'') (\<lambda>start.
        bind (toStr start) (\<lambda>converted.
        bind (getProp event ''camera'') (\<lambda>camera.
        bind (if camera = JUndefined \<or> camera = JNull then Inr JUndefined
              else getProp camera ''name'') (\<lambda>name.
        bind (getProp event ''type'') (\<lambda>etype.
        bind (toStr (if truthy etype then etype else JStr ''Unknown Event'')) (\<lambda>eventType.
        bind (toStr (if truthy name then name else JStr ''Unknown Camera'')) (\<lambda>cameraName.
        Inr (Some (eventType, cameraName))))))))))"

text \<open>
  \<^verbatim>\<open>uploadToDiscord\<close> (lines 194-231): the file is read and posted; 204 and 200 count as
  success, any throw, that of \<^verbatim>\<open>formatEventInfo\<close> included, as failure.
\<close>

definition uploadToDiscord :: "cliEnv \<Rightarrow> processor \<Rightarrow> string \<Rightarrow> jsval \<Rightarrow> bool \<times> processor" where
  "uploadToDiscord env s0 filePath eventInfo =
     (case files s0 filePath of
        None \<Rightarrow> (False, s0)
      | Some bytes \<Rightarrow>
          (case formatEventInfo eventInfo of
             Inl e \<Rightarrow> (False, s0)
           | Inr info \<Rightarrow>
               (let s = request (Upload filePath bytes) s0 in
                case axios (uploadResponse env filePath bytes) of
                  Inl e \<Rightarrow> (False, s)
                | Inr (status, body) \<Rightarrow> (status = 204 \<or> status = 200, s))))"

text \<open>\<^verbatim>\<open>processEvent\<close> (lines 243-281).\<close>

definition processEvent :: "cliEnv \<Rightarrow> processor \<Rightarrow> string \<Rightarrow> bool \<times> processor" where
  "processEvent env s0 eventId =
     (let fileName = ''thumbnail-'' @ eventId @ ''.jpg'' in
      case getEventInfo env s0 eventId of (eventInfo, s1) \<Rightarrow>
        if \<not> truthy eventInfo then (False, s1)
        else
          case downloadThumbnail env s1 eventId fileName of (downloadSuccess, s2) \<Rightarrow>
            if \<not> downloadSuccess then (False, s2)
            else
              case uploadToDiscord env s2 fileName eventInfo of (uploadSuccess, s3) \<Rightarrow>
                if \<not> uploadSuccess then (False, s3)
                else (True, s3\<lparr>files := (files s3)(fileName := None)\<rparr>))"

section \<open>Dispatch in the webhook service\<close>










section \<open>Vocabulary of the session statements\<close>

text \<open>
  The text of \<open>s\<close> before and after the first occurrence of \<open>sep\<close>; without an occurrence
  all of \<open>s\<close> is before it.
\<close>

fun beforeFirst :: "string \<Rightarrow> string \<Rightarrow> string" where
  "beforeFirst sep [] = []"
| "beforeFirst sep (c # cs) = (if prefix sep (c # cs) then [] else c # beforeFirst sep cs)"

fun afterFirst :: "string \<Rightarrow> string \<Rightarrow> string" where
  "afterFirst sep [] = []"
| "afterFirst sep (c # cs) =
     (if prefix sep (c # cs) then drop (length sep) (c # cs) else afterFirst sep cs)"

text \<open>
  The token in the specification's words: the substring between the first "TOKEN=" and the
  next ";", or the end of the string.
\<close>

definition specToken :: "string \<Rightarrow> string" where
  "specToken cookie = takeWhile (\<lambda>c. c \<noteq> CHR '';'') (afterFirst ''TOKEN='' cookie)"

text \<open>The token as the code cuts it: the piece also ends at a second "TOKEN=".\<close>

definition cutToken :: "string \<Rightarrow> string" where
  "cutToken cookie =
     takeWhile (\<lambda>c. c \<noteq> CHR '';'') (beforeFirst ''TOKEN='' (afterFirst ''TOKEN='' cookie))"




definition logins :: "processor \<Rightarrow> nat" where
  "logins s = length (filter (\<lambda>r. r = Login) (requests s))"

text \<open>Sample runs of the processor.\<close>

definition freshProcessor :: processor where
  "freshProcessor = \<lparr>sessionToken = None, files = Map.empty, requests = []\<rparr>"


definition sampleEnv :: cliEnv where
  "sampleEnv =
     \<lparr>host = ''192.168.1.80'', clock = 1722526793954,
      loginResponse = Response 200 (Some [''TOKEN=new.token; Path=/; HttpOnly'']),
      whoAmIResponse = (\<lambda>t. if t = ''old.token'' then Response 200 () else Response 401 ()),
      eventResponse = (\<lambda>i. Response 200 (JObj [(''type'', JStr ''motion'')])),
      thumbnailResponse = (\<lambda>i. Response 200 ''JPEG''),
      uploadResponse = (\<lambda>f b. Response 204 ())\<rparr>"

section \<open>Vocabulary of the dispatch statements\<close>






definition failedUploadEnv :: cliEnv where
  "failedUploadEnv = sampleEnv\<lparr>uploadResponse := (\<lambda>f b. Response 500 ())\<rparr>"

section \<open>Verification\<close>

subsection \<open>Event-type extraction\<close>

lemma typedCondition_cases:
  assumes "typedCondition c"
  obtains
    (none) "getProp c ''condition'' = Inr (propOf c ''condition'')"
      "\<not> truthy (propOf c ''condition'')" "conditionSource c = None"
  | (object) cc where "getProp c ''condition'' = Inr (JObj cc)" "propOf c ''condition'' = JObj cc"
      "absentOr isStr (map_of cc ''source'')" "absentOr isStr (map_of cc ''type'')"
      "conditionSource c =
         (case map_of cc ''source'' of Some (JStr s) \<Rightarrow> if s = [] then None else Some s
          | _ \<Rightarrow> None)"
proof (cases c)
  case (JObj kvs)
  show ?thesis
  proof (cases "map_of kvs ''condition''")
    case None
    with JObj show ?thesis by (intro none) (simp_all add: propOf_def)
  next
    case (Some v)
    show ?thesis
    proof (cases v)
      case JNull
      with JObj Some show ?thesis by (intro none) (simp_all add: propOf_def)
    next
      case (JObj cc)
      with \<open>c = JObj kvs\<close> Some assms show ?thesis
        by (intro object[of cc]) (simp_all add: propOf_def absentOr_def)
    qed (use assms \<open>c = JObj kvs\<close> Some in \<open>simp_all add: absentOr_def\<close>)
  qed
qed (use assms in simp_all)

lemma typed_text:
  assumes "absentOr isStr (map_of cc k)"
  obtains (falsy) "\<not> truthy (propOf (JObj cc) k)"
      "map_of cc k = None \<or> map_of cc k = Some JNull \<or> map_of cc k = Some (JStr [])"
    | (str) s where "map_of cc k = Some (JStr s)" "propOf (JObj cc) k = JStr s" "s \<noteq> []"
proof (cases "map_of cc k")
  case None
  then show ?thesis by (intro falsy) (simp_all add: propOf_def)
next
  case (Some v)
  show ?thesis
  proof (cases v)
    case JNull
    with Some show ?thesis by (intro falsy) (simp_all add: propOf_def)
  next
    case (JStr s)
    show ?thesis
    proof (cases "s = []")
      case True
      with Some JStr show ?thesis by (intro falsy) (simp_all add: propOf_def)
    next
      case False
      with Some JStr show ?thesis by (intro str[of s]) (simp_all add: propOf_def)
    qed
  qed (use assms Some in \<open>simp_all add: absentOr_def\<close>)
qed

lemma getProp_obj: "getProp (JObj kvs) k = Inr (propOf (JObj kvs) k)"
  by (simp add: propOf_def)












subsection \<open>Reading properties\<close>

lemma bind_Inl [simp]: "bind (Inl e) f = Inl e"
  by (simp add: bind_def)

lemma bind_Inr [simp]: "bind (Inr v) f = f v"
  by (simp add: bind_def)




subsection \<open>Person identity\<close>




subsection \<open>Conditions summary\<close>

lemma textOf_str [simp]: "textOf (JStr s) = s"
  by (simp add: textOf_def)


lemma typed_orUnknown:
  assumes "absentOr isStr (map_of cc k)"
  shows "toStr (orUnknown (propOf (JObj cc) k)) = Inr (textOf (orUnknown (propOf (JObj cc) k)))"
  using assms
proof (cases rule: typed_text)
  case falsy
  then show ?thesis by (simp add: orUnknown_def)
next
  case (str s)
  then show ?thesis by (simp add: orUnknown_def)
qed

lemma conditionFragment_typed:
  assumes "typedCondition c"
  shows "conditionFragment c = Inr (fragmentText c)"
  using assms
proof (cases rule: typedCondition_cases)
  case none
  then show ?thesis by (simp add: conditionFragment_def fragmentText_def)
next
  case (object cc)
  note s = typed_orUnknown[OF object(3)] and t = typed_orUnknown[OF object(4)]
  from object(1,2) show ?thesis
    by (simp add: conditionFragment_def fragmentText_def specFragment_def getProp_obj s t
        del: getProp.simps)
qed

lemma mapFragments_typed:
  "list_all typedCondition cs \<Longrightarrow> mapFragments cs = Inr (map fragmentText cs)"
  by (induction cs) (simp_all add: conditionFragment_typed)

text \<open>
  C8 (as amended).  For every non-empty array of typed conditions the summary is the join,
  with ", ", of one fragment per condition: \<^verbatim>\<open>"<source> (<type>)"\<close>, each part defaulting to
  "unknown", for an entry that has a \<^verbatim>\<open>condition\<close> object, and the bare word "unknown" for an
  entry that has none.  The summary is absent when the array is empty or missing.
\<close>

theorem conditionsSummary_join:
  "(list_all typedCondition cs \<and> cs \<noteq> [] \<longrightarrow>
      conditionsSummary (JArr cs) = Inr (Some (join '', '' (map fragmentText cs)))) \<and>
   conditionsSummary (JArr []) = Inr None \<and>
   conditionsSummary JUndefined = Inr None \<and>
   conditionsSummary JNull = Inr None"
  by (simp add: conditionsSummary_def mapFragments_typed)

text \<open>The theorem at a condition without a type followed by an entry without a condition.\<close>

theorem conditionsSummary_join_witness:
  "list_all typedCondition [motionDetected, JObj []] \<and> [motionDetected, JObj []] \<noteq> [] \<and>
   conditionsSummary (JArr [motionDetected, JObj []]) =
     Inr (Some ''Motion Detected (unknown), unknown'')"
proof -
  have h: "list_all typedCondition [motionDetected, JObj []] \<and> [motionDetected, JObj []] \<noteq> []"
    by (simp add: motionDetected_def absentOr_def)
  have e: "join '', '' (map fragmentText [motionDetected, JObj []]) =
      ''Motion Detected (unknown), unknown''"
    by (simp add: fragmentText_def specFragment_def propOf_def motionDetected_def orUnknown_def)
  from conditionsSummary_join[of "[motionDetected, JObj []]"] h e show ?thesis by simp
qed

text \<open>
  C8 as stated fails: for the one-entry array \<^verbatim>\<open>[{}]\<close> the summary is "unknown", not the
  fragment "unknown (unknown)" that defaulting source and type individually would give.
\<close>

theorem conditionsSummary_counterexample:
  "conditionsSummary (JArr [JObj []]) = Inr (Some ''unknown'') \<and>
   join '', '' (map specFragment [JObj []]) = ''unknown (unknown)''"
  by (simp add: conditionsSummary_def conditionFragment_def specFragment_def propOf_def
      orUnknown_def)

subsection \<open>Totality of the transformation\<close>





















subsection \<open>Determinism of the transformation\<close>





subsection \<open>Sanitizing\<close>




subsection \<open>Session token\<close>

lemma beforeFirst_absent: "\<not> includesStr s sep \<Longrightarrow> beforeFirst sep s = s"
  by (induction s) auto

lemma first_occurrence:
  "includesStr s sep \<Longrightarrow> s = beforeFirst sep s @ sep @ afterFirst sep s"
proof (induction s)
  case Nil
  then show ?case by simp
next
  case (Cons c cs)
  show ?case
  proof (cases "prefix sep (c # cs)")
    case True
    then have b: "beforeFirst sep (c # cs) = []"
      and a: "afterFirst sep (c # cs) = drop (length sep) (c # cs)"
      by simp_all
    from True have "c # cs = sep @ drop (length sep) (c # cs)"
      by (auto simp: prefix_def)
    then show ?thesis unfolding a b by simp
  next
    case False
    with Cons show ?thesis by simp
  qed
qed

lemma splitStr_first:
  "sep \<noteq> [] \<Longrightarrow>
   splitStr sep cur s =
     (if includesStr s sep then (cur @ beforeFirst sep s) # splitStr sep [] (afterFirst sep s)
      else [cur @ s])"
proof (induction s arbitrary: cur)
  case Nil
  then show ?case by simp
next
  case (Cons c cs)
  show ?case
  proof (cases "prefix sep (c # cs)")
    case True
    with Cons.prems show ?thesis by simp
  next
    case False
    with Cons.prems Cons.IH[OF Cons.prems, of "cur @ [c]"] show ?thesis by simp
  qed
qed

lemma splitStr_head:
  assumes "sep \<noteq> []"
  shows "\<exists>rest. splitStr sep cur s = (cur @ beforeFirst sep s) # rest"
  by (simp add: splitStr_first[OF assms] beforeFirst_absent)

lemma beforeFirst_char: "beforeFirst [d] s = takeWhile (\<lambda>c. c \<noteq> d) s"
  by (induction s) auto

lemma tokenOfCookie_cut:
  assumes "includesStr cookie ''TOKEN=''"
  shows "tokenOfCookie cookie = Inr (cutToken cookie)"
proof -
  have ne: "''TOKEN='' \<noteq> []" "'';'' \<noteq> []" by simp_all
  from splitStr_head[OF ne(1), of "[]" "afterFirst ''TOKEN='' cookie"]
  obtain r1 where 1: "splitStr ''TOKEN='' [] (afterFirst ''TOKEN='' cookie) =
      beforeFirst ''TOKEN='' (afterFirst ''TOKEN='' cookie) # r1" by auto
  from splitStr_head[OF ne(2), of "[]" "beforeFirst ''TOKEN='' (afterFirst ''TOKEN='' cookie)"]
  obtain r2 where 2: "splitStr '';'' [] (beforeFirst ''TOKEN='' (afterFirst ''TOKEN='' cookie)) =
      beforeFirst '';'' (beforeFirst ''TOKEN='' (afterFirst ''TOKEN='' cookie)) # r2" by auto
  have "splitStr ''TOKEN='' [] cookie =
      beforeFirst ''TOKEN='' cookie # beforeFirst ''TOKEN='' (afterFirst ''TOKEN='' cookie) # r1"
    using assms 1 by (simp add: splitStr_first[OF ne(1), of "[]" cookie])
  then show ?thesis
    by (simp add: tokenOfCookie_def 2 cutToken_def beforeFirst_char)
qed

lemma cutToken_once:
  "\<not> includesStr (afterFirst ''TOKEN='' cookie) ''TOKEN='' \<Longrightarrow> cutToken cookie = specToken cookie"
  by (simp add: cutToken_def specToken_def beforeFirst_absent)

lemma tokenOfCookies_found:
  assumes "List.find (\<lambda>c. includesStr c ''TOKEN='') cookies = Some cookie"
  shows "tokenOfCookies cookies = Inr (Some (cutToken cookie))"
proof -
  from assms have "includesStr cookie ''TOKEN=''" by (auto simp: find_Some_iff)
  with assms show ?thesis by (simp add: tokenOfCookies_def tokenOfCookie_cut)
qed

lemma tokenOfCookies_none:
  "List.find (\<lambda>c. includesStr c ''TOKEN='') cookies = None \<Longrightarrow> tokenOfCookies cookies = Inr None"
  by (simp add: tokenOfCookies_def)

text \<open>
  C5 (as amended).  The token is taken from the first cookie of the login response that
  contains "TOKEN=": it is the text after the first "TOKEN=" of that cookie up to the next
  ";" or the next "TOKEN=", whichever comes first, or the end of the string; when the marker
  occurs once in the cookie this is exactly the substring between it and the next ";".  A
  non-empty token makes \<^verbatim>\<open>authenticate\<close> succeed with that token.  If no cookie contains the
  marker, download-thumbnail.mjs returns no token, and the method \<^verbatim>\<open>authenticate\<close> fails with
  no token when the object held none before the call.
\<close>

theorem session_token_extraction:
  "(List.find (\<lambda>c. includesStr c ''TOKEN='') cookies = Some cookie \<longrightarrow>
      cookie = beforeFirst ''TOKEN='' cookie @ ''TOKEN='' @ afterFirst ''TOKEN='' cookie \<and>
      tokenOfCookies cookies = Inr (Some (cutToken cookie)) \<and>
      (\<not> includesStr (afterFirst ''TOKEN='' cookie) ''TOKEN='' \<longrightarrow>
         tokenOfCookies cookies = Inr (Some (specToken cookie))) \<and>
      sessionTokenOfLogin (Some cookies) =
         Inr (if cutToken cookie = [] then None else Some (cutToken cookie)) \<and>
      (axios (loginResponse env) = Inr (status, Some cookies) \<and> cutToken cookie \<noteq> [] \<longrightarrow>
         fst (authenticate env s) \<and>
         sessionToken (snd (authenticate env s)) = Some (cutToken cookie))) \<and>
   (List.find (\<lambda>c. includesStr c ''TOKEN='') cookies = None \<longrightarrow>
      sessionTokenOfLogin (Some cookies) = Inr None \<and>
      (axios (loginResponse env) = Inr (status, Some cookies) \<and> sessionToken s = None \<longrightarrow>
         \<not> fst (authenticate env s) \<and>
         sessionToken (snd (authenticate env s)) = None \<and>
         files (snd (authenticate env s)) = files s))"
proof (intro conjI impI)
  assume f: "List.find (\<lambda>c. includesStr c ''TOKEN='') cookies = Some cookie"
  then have i: "includesStr cookie ''TOKEN=''" by (auto simp: find_Some_iff)
  from first_occurrence[OF i]
  show "cookie = beforeFirst ''TOKEN='' cookie @ ''TOKEN='' @ afterFirst ''TOKEN='' cookie" .
  show t: "tokenOfCookies cookies = Inr (Some (cutToken cookie))"
    by (rule tokenOfCookies_found[OF f])
  show "sessionTokenOfLogin (Some cookies) =
         Inr (if cutToken cookie = [] then None else Some (cutToken cookie))"
    by (simp add: sessionTokenOfLogin_def t)
  {
    assume "\<not> includesStr (afterFirst ''TOKEN='' cookie) ''TOKEN=''"
    then show "tokenOfCookies cookies = Inr (Some (specToken cookie))"
      by (simp add: t cutToken_once)
  }
  {
    assume a: "axios (loginResponse env) = Inr (status, Some cookies) \<and> cutToken cookie \<noteq> []"
    then show "fst (authenticate env s)"
      and "sessionToken (snd (authenticate env s)) = Some (cutToken cookie)"
      by (simp_all add: authenticate_def Let_def t request_def)
  }
next
  assume f: "List.find (\<lambda>c. includesStr c ''TOKEN='') cookies = None"
  show "sessionTokenOfLogin (Some cookies) = Inr None"
    by (simp add: sessionTokenOfLogin_def tokenOfCookies_none[OF f])
  {
    assume a: "axios (loginResponse env) = Inr (status, Some cookies) \<and> sessionToken s = None"
    then show "\<not> fst (authenticate env s)"
      and "sessionToken (snd (authenticate env s)) = None"
      and "files (snd (authenticate env s)) = files s"
      by (simp_all add: authenticate_def Let_def tokenOfCookies_none[OF f] request_def)
  }
qed

text \<open>
  The theorem at a login response whose second cookie carries the token, and at one without
  the marker.
\<close>

theorem session_token_extraction_witness:
  "List.find (\<lambda>c. includesStr c ''TOKEN='') [''lang=en; Path=/'', ''TOKEN=new.token; Path=/'']
     = Some ''TOKEN=new.token; Path=/'' \<and>
   \<not> includesStr (afterFirst ''TOKEN='' ''TOKEN=new.token; Path=/'') ''TOKEN='' \<and>
   tokenOfCookies [''lang=en; Path=/'', ''TOKEN=new.token; Path=/''] = Inr (Some ''new.token'') \<and>
   List.find (\<lambda>c. includesStr c ''TOKEN='') [''lang=en; Path=/''] = None \<and>
   sessionTokenOfLogin (Some [''lang=en; Path=/'']) = Inr None"
proof -
  let ?c = "''TOKEN=new.token; Path=/''"
  let ?cs = "[''lang=en; Path=/'', ?c]"
  have h1: "List.find (\<lambda>c. includesStr c ''TOKEN='') ?cs = Some ?c" by simp
  have h2: "\<not> includesStr (afterFirst ''TOKEN='' ?c) ''TOKEN=''" by simp
  have h3: "List.find (\<lambda>c. includesStr c ''TOKEN='') [''lang=en; Path=/''] = None" by simp
  have e: "specToken ?c = ''new.token''" by (simp add: specToken_def)
  from session_token_extraction[of ?cs ?c sampleEnv 200 freshProcessor] h1 h2
  have "tokenOfCookies ?cs = Inr (Some (specToken ?c))" by blast
  then have r1: "tokenOfCookies ?cs = Inr (Some ''new.token'')" by (simp only: e)
  from session_token_extraction[of "[''lang=en; Path=/'']" "[]" sampleEnv 200 freshProcessor] h3
  have r2: "sessionTokenOfLogin (Some [''lang=en; Path=/'']) = Inr None" by simp
  from h1 h2 h3 r1 r2 show ?thesis by (intro conjI)
qed

text \<open>
  C5 as stated fails: in a cookie where "TOKEN=" occurs again before the next ";", the code
  cuts the token at the second marker, while the substring up to the next ";" is longer.
\<close>

theorem session_token_counterexample:
  "tokenOfCookies [''TOKEN=abTOKEN=cd; Path=/''] = Inr (Some ''ab'') \<and>
   specToken ''TOKEN=abTOKEN=cd; Path=/'' = ''abTOKEN=cd''"
  by (simp add: tokenOfCookies_def tokenOfCookie_def specToken_def)

text \<open>
  A token loaded from cookies.txt stays in the object: when the login response is a success
  without the marker, \<^verbatim>\<open>authenticate\<close> reports success and writes the old token back.
\<close>

lemma authenticate_keeps_loaded_token:
  assumes "axios (loginResponse env) = Inr (status, Some cookies)"
    and "List.find (\<lambda>c. includesStr c ''TOKEN='') cookies = None"
    and "sessionToken s = Some t" and "t \<noteq> []"
  shows "fst (authenticate env s) \<and> sessionToken (snd (authenticate env s)) = Some t \<and>
         files (snd (authenticate env s)) ''cookies.txt'' = Some (cookieLine env t)"
  using assms
  by (simp add: authenticate_def Let_def tokenOfCookies_none request_def)

subsection \<open>Reusing a session\<close>


lemma logins_update [simp]:
  "logins (s\<lparr>sessionToken := x\<rparr>) = logins s"
  "logins (s\<lparr>files := y\<rparr>) = logins s"
  by (simp_all add: logins_def)






subsection \<open>Dispatch\<close>










text \<open>
  C9, evaluated where it fails.  The download succeeds and the upload is answered with 500:
  \<^verbatim>\<open>processEvent\<close> answers false after the upload attempt and the thumbnail file is still
  there.  After a successful upload the file is gone.
\<close>

theorem processEvent_keeps_file_after_failed_upload:
  "fst (processEvent failedUploadEnv freshProcessor ''abc'') = False \<and>
   requests (snd (processEvent failedUploadEnv freshProcessor ''abc'')) =
     [GetEvent ''abc'', GetThumbnail ''abc'', Upload ''thumbnail-abc.jpg'' ''JPEG''] \<and>
   files (snd (processEvent failedUploadEnv freshProcessor ''abc'')) ''thumbnail-abc.jpg'' =
     Some ''JPEG'' \<and>
   fst (processEvent sampleEnv freshProcessor ''abc'') = True \<and>
   files (snd (processEvent sampleEnv freshProcessor ''abc'')) ''thumbnail-abc.jpg'' = None"
  by (simp add: processEvent_def getEventInfo_def downloadThumbnail_def uploadToDiscord_def
      formatEventInfo_def failedUploadEnv_def sampleEnv_def freshProcessor_def request_def axios_def Let_def
      showNat.simps)

end
